theory Spec2Isabelle
  imports Main "HOL-Library.Multiset"
begin

section \<open>The hover-tooltip notebook (brainstorming-viz/Untitled.ipynb, cell 0)\<close>

text \<open>
  The notebook's only code cell is a straight-line script of eight statements, all of them
  calls into the plotting library:
  \<^verbatim>\<open>
  from bokeh.plotting import figure, output_file, show, ColumnDataSource
  from bokeh.models import HoverTool
  output_file("toolbar.html")
  source = ColumnDataSource(data=dict(x=[...], y=[...], desc=[...], imgs=[...]))
  hover = HoverTool(tooltips="""...""")
  p = figure(plot_width=400, plot_height=400, tools=[hover], title="Mouse over the dots")
  p.circle('x', 'y', size=20, source=source)
  show(p)
  \<close>
  The script is modelled as a computation over a session state with exceptions. The
  plotting library is not part of the repository: what its calls do on success is
  modelled from the specification, as recording the configuration they are handed
  (objects live in a store and are passed by reference, as in Python), and whether a call
  raises is a parameter of the model, since it is decided by the library and the machine
  the script runs on. The script reads no command line, environment variable or file, so
  the model has no such input.
\<close>

subsection \<open>Python values\<close>

datatype pyval = PyInt int | PyStr string

type_synonym column = "pyval list"

text \<open>
  A dict with string keys, as built by \<^verbatim>\<open>dict(x=..., y=..., ...)\<close>: the keyword
  arguments with their values; keyword names are distinct. Lookup is by key.
\<close>

type_synonym pydict = "(string \<times> column) list"

definition dict_get :: "pydict \<Rightarrow> string \<Rightarrow> column option" where
  "dict_get d k = map_of d k"

definition dict_keys :: "pydict \<Rightarrow> string list" where
  "dict_keys d = map fst d"

datatype pyexn = PyExn string string

subsection \<open>The literal data of the script\<close>

definition data :: pydict where
  "data = [
     (''x'', [PyInt 1, PyInt 2, PyInt 3, PyInt 4, PyInt 5]),
     (''y'', [PyInt 2, PyInt 5, PyInt 8, PyInt 2, PyInt 7]),
     (''desc'', [PyStr ''A'', PyStr ''b'', PyStr ''C'', PyStr ''d'', PyStr ''E'']),
     (''imgs'', [
        PyStr ''http://bokeh.pydata.org/static/snake.jpg'',
        PyStr ''http://bokeh.pydata.org/static/snake2.png'',
        PyStr ''http://bokeh.pydata.org/static/snake3D.png'',
        PyStr ''http://bokeh.pydata.org/static/snake4_TheRevenge.png'',
        PyStr ''http://bokeh.pydata.org/static/snakebite.jpg''])]"

definition tooltips :: string where
  \<open>tooltips =
     ''\<newline>''
     @ ''        <div>\<newline>''
     @ ''            <div>\<newline>''
     @ ''                <img\<newline>''
     @ ''                    src="@imgs" height="42" alt="@imgs" width="42"\<newline>''
     @ ''                    style="float: left; margin: 0px 15px 15px 0px;"\<newline>''
     @ ''                    border="2"\<newline>''
     @ ''                ></img>\<newline>''
     @ ''            </div>\<newline>''
     @ ''            <div>\<newline>''
     @ ''                <span style="font-size: 17px; font-weight: bold;">@desc</span>\<newline>''
     @ ''                <span style="font-size: 15px; color: #966;">[$index]</span>\<newline>''
     @ ''            </div>\<newline>''
     @ ''            <div>\<newline>''
     @ ''                <span style="font-size: 15px;">Location</span>\<newline>''
     @ ''                <span style="font-size: 10px; color: #696;">($x, $y)</span>\<newline>''
     @ ''            </div>\<newline>''
     @ ''        </div>\<newline>''
     @ ''        ''\<close>

subsection \<open>Library objects, held in a store\<close>

type_synonym addr = nat

text \<open>A glyph renderer: the marker kind, the two column names, the size, the data source.\<close>

datatype renderer =
  Circle (x_field: string) (y_field: string) (glyph_size: int) (data_source: addr)

record figure_obj =
  plot_width :: int
  plot_height :: int
  tools :: "addr list"
  title :: string
  renderers :: "renderer list"

datatype obj =
    DataSourceObj pydict
  | HoverObj string
  | FigureObj figure_obj

text \<open>What \<^verbatim>\<open>show\<close> hands over: the configured file, the root object, the document.\<close>

record artifact =
  file_name :: "string option"
  root :: addr
  document :: "addr \<rightharpoonup> obj"

text \<open>The calls the script can make, with their arguments.\<close>

datatype call =
    Import string "string list"
  | Call_output_file string
  | Call_ColumnDataSource pydict
  | Call_HoverTool string
  | Call_figure int int "addr list" string
  | Call_circle addr string string int addr
  | Call_show addr

record session =
  store :: "addr \<rightharpoonup> obj"
  next_addr :: addr
  output_path :: "string option"
  emitted :: "artifact list"
  trace :: "call list"

definition init :: session where
  "init = \<lparr>store = Map.empty, next_addr = 0, output_path = None, emitted = [], trace = []\<rparr>"

subsection \<open>Statements: state and exceptions\<close>

text \<open>
  A library decides, for each call, whether it raises. \<open>None\<close> is normal completion.
\<close>

type_synonym library = "call \<Rightarrow> pyexn option"

type_synonym 'a py = "session \<Rightarrow> (pyexn + 'a) \<times> session"

definition returnM :: "'a \<Rightarrow> 'a py" where
  "returnM a s = (Inr a, s)"

text \<open>
  Sequencing of two statements. The script has no \<^verbatim>\<open>try\<close>: an exception of the
  first statement ends the run, and the second is not executed.
\<close>

definition bindM :: "'a py \<Rightarrow> ('a \<Rightarrow> 'b py) \<Rightarrow> 'b py" where
  "bindM m f s = (case m s of (Inl e, s') \<Rightarrow> (Inl e, s') | (Inr a, s') \<Rightarrow> f a s')"

text \<open>A library call is logged, then raises or runs its body.\<close>

definition invoke :: "library \<Rightarrow> call \<Rightarrow> 'a py \<Rightarrow> 'a py" where
  "invoke L c body s =
     (let s' = s\<lparr>trace := trace s @ [c]\<rparr>
      in case L c of Some e \<Rightarrow> (Inl e, s') | None \<Rightarrow> body s')"

definition alloc :: "obj \<Rightarrow> addr py" where
  "alloc ob s =
     (Inr (next_addr s),
      s\<lparr>store := (store s)(next_addr s \<mapsto> ob), next_addr := Suc (next_addr s)\<rparr>)"

text \<open>
  Modelled from the spec: the \<^verbatim>\<open>import\<close> statements bind library names; nothing else
  of them is observed.
\<close>

definition import_from :: "library \<Rightarrow> string \<Rightarrow> string list \<Rightarrow> unit py" where
  "import_from L m names = invoke L (Import m names) (returnM ())"

text \<open>
  Modelled from the spec: \<^verbatim>\<open>output_file\<close> of the library, which names the HTML file
  that a later \<^verbatim>\<open>show\<close> writes.
\<close>

definition output_file :: "library \<Rightarrow> string \<Rightarrow> unit py" where
  "output_file L name =
     invoke L (Call_output_file name) (\<lambda>s. (Inr (), s\<lparr>output_path := Some name\<rparr>))"

text \<open>
  Modelled from the spec: the constructor \<^verbatim>\<open>ColumnDataSource\<close> of the library, a new
  object holding the columnar record set.
\<close>

definition ColumnDataSource :: "library \<Rightarrow> pydict \<Rightarrow> addr py" where
  "ColumnDataSource L d = invoke L (Call_ColumnDataSource d) (alloc (DataSourceObj d))"

text \<open>
  Modelled from the spec: the constructor \<^verbatim>\<open>HoverTool\<close> of the library, a new object
  holding the tooltip template.
\<close>

definition HoverTool :: "library \<Rightarrow> string \<Rightarrow> addr py" where
  "HoverTool L t = invoke L (Call_HoverTool t) (alloc (HoverObj t))"

text \<open>
  Modelled from the spec: \<^verbatim>\<open>figure\<close> of the library, a new plot canvas with its size,
  title and tools, and no renderer yet.
\<close>

definition figure :: "library \<Rightarrow> int \<Rightarrow> int \<Rightarrow> addr list \<Rightarrow> string \<Rightarrow> addr py" where
  "figure L w h ts ttl =
     invoke L (Call_figure w h ts ttl)
       (alloc (FigureObj \<lparr>plot_width = w, plot_height = h, tools = ts, title = ttl,
                          renderers = []\<rparr>))"

text \<open>
  Modelled from the spec: \<^verbatim>\<open>p.circle(x, y, size=..., source=...)\<close>, a method of the
  figure, which attaches one circular-marker renderer to \<open>p\<close> in place. On an object
  that is not a figure the attribute is missing.
\<close>

definition circle :: "library \<Rightarrow> addr \<Rightarrow> string \<Rightarrow> string \<Rightarrow> int \<Rightarrow> addr \<Rightarrow> unit py" where
  "circle L p xf yf sz src =
     invoke L (Call_circle p xf yf sz src)
       (\<lambda>s. case store s p of
               Some (FigureObj f) \<Rightarrow>
                 (Inr (),
                  s\<lparr>store := (store s)(p \<mapsto>
                       FigureObj (f\<lparr>renderers := renderers f @ [Circle xf yf sz src]\<rparr>))\<rparr>)
             | _ \<Rightarrow> (Inl (PyExn ''AttributeError'' ''circle''), s))"

text \<open>
  Modelled from the spec: \<^verbatim>\<open>show\<close> of the library, which directs it to write and
  display the HTML artifact for \<open>p\<close>: the file configured at that moment and the
  objects as they are at that moment.
\<close>

definition show_obj :: "library \<Rightarrow> addr \<Rightarrow> unit py" where
  "show_obj L p =
     invoke L (Call_show p)
       (\<lambda>s. (Inr (),
              s\<lparr>emitted := emitted s @
                   [\<lparr>file_name = output_path s, root = p, document = store s\<rparr>]\<rparr>))"

subsection \<open>The script\<close>

text \<open>The statements up to and including the construction of \<open>source\<close>.\<close>

definition construct_source :: "library \<Rightarrow> addr py" where
  "construct_source L =
     bindM (import_from L ''bokeh.plotting''
              [''figure'', ''output_file'', ''show'', ''ColumnDataSource'']) (\<lambda>_.
     bindM (import_from L ''bokeh.models'' [''HoverTool'']) (\<lambda>_.
     bindM (output_file L ''toolbar.html'') (\<lambda>_.
     ColumnDataSource L data)))"

text \<open>The statements that follow it.\<close>

definition after_source :: "library \<Rightarrow> addr \<Rightarrow> unit py" where
  "after_source L source =
     bindM (HoverTool L tooltips) (\<lambda>hover.
     bindM (figure L 400 400 [hover] ''Mouse over the dots'') (\<lambda>p.
     bindM (circle L p ''x'' ''y'' 20 source) (\<lambda>_.
     show_obj L p)))"

definition script :: "library \<Rightarrow> unit py" where
  "script L = bindM (construct_source L) (\<lambda>source. after_source L source)"

text \<open>A library none of whose calls raises, and the calls of the run with it.\<close>

definition no_failure :: library where
  "no_failure c = None"

definition script_calls :: "call list" where
  "script_calls = trace (snd (script no_failure init))"

text \<open>A library whose call \<open>c\<close> raises \<open>e\<close>, and no other.\<close>

definition failing_at :: "call \<Rightarrow> pyexn \<Rightarrow> library" where
  "failing_at c e c' = (if c' = c then Some e else None)"

subsection \<open>Reading the record set\<close>

text \<open>
  Element \<open>i\<close> of column \<open>k\<close>; a missing key or an index out of range gives nothing
  (Python raises KeyError or IndexError there).
\<close>

definition column_at :: "pydict \<Rightarrow> string \<Rightarrow> nat \<Rightarrow> pyval option" where
  "column_at d k i =
     (case dict_get d k of
        None \<Rightarrow> None
      | Some xs \<Rightarrow> if i < length xs then Some (xs ! i) else None)"

definition row :: "pydict \<Rightarrow> nat \<Rightarrow> pyval option list" where
  "row d i = map (\<lambda>k. column_at d k i) [''x'', ''y'', ''desc'', ''imgs'']"

definition column_length :: "pydict \<Rightarrow> string \<Rightarrow> nat option" where
  "column_length d k = map_option length (dict_get d k)"

text \<open>The record sets found in a store, by address below the allocation mark.\<close>

definition record_sets :: "session \<Rightarrow> pydict list" where
  "record_sets s =
     concat (map (\<lambda>a. case store s a of Some (DataSourceObj d) \<Rightarrow> [d] | _ \<Rightarrow> [])
                 [0 ..< next_addr s])"

subsection \<open>What the calls name\<close>

text \<open>The output files named by a sequence of calls.\<close>

definition named_files :: "call list \<Rightarrow> string list" where
  "named_files cs =
     concat (map (\<lambda>c. case c of Call_output_file n \<Rightarrow> [n] | _ \<Rightarrow> []) cs)"

definition column_strings :: "column \<Rightarrow> string list" where
  "column_strings col = concat (map (\<lambda>v. case v of PyStr s \<Rightarrow> [s] | PyInt _ \<Rightarrow> []) col)"

text \<open>Every string that a call hands to the library.\<close>

fun call_strings :: "call \<Rightarrow> string list" where
  "call_strings (Import m names) = m # names"
| "call_strings (Call_output_file n) = [n]"
| "call_strings (Call_ColumnDataSource d) =
     concat (map (\<lambda>(k, col). k # column_strings col) d)"
| "call_strings (Call_HoverTool t) = [t]"
| "call_strings (Call_figure w h ts ttl) = [ttl]"
| "call_strings (Call_circle p xf yf sz src) = [xf, yf]"
| "call_strings (Call_show p) = []"

fun starts_with :: "string \<Rightarrow> string \<Rightarrow> bool" where
  "starts_with [] s = True"
| "starts_with (p # ps) [] = False"
| "starts_with (p # ps) (c # cs) = (p = c \<and> starts_with ps cs)"

fun contains :: "string \<Rightarrow> string \<Rightarrow> bool" where
  "contains pat [] = (pat = [])"
| "contains pat (c # cs) = (starts_with pat (c # cs) \<or> contains pat cs)"

subsection \<open>The tooltip template\<close>

datatype placeholder = Column string | Special string

definition is_name_char :: "char \<Rightarrow> bool" where
  "is_name_char c =
     (let n = (of_char c :: nat)
      in (97 \<le> n \<and> n \<le> 122) \<or> (65 \<le> n \<and> n \<le> 90) \<or> (48 \<le> n \<and> n \<le> 57) \<or> n = 95)"

text \<open>
  Modelled from the spec: the library's reading of a tooltip template, markup with named
  placeholders. \<^verbatim>\<open>@name\<close> names a column of the data source and \<^verbatim>\<open>$name\<close> a
  variable that the library provides; a name is a run of letters, digits and underscores.
\<close>

fun placeholders :: "string \<Rightarrow> placeholder list" where
  "placeholders [] = []"
| "placeholders (c # cs) =
     (let name = takeWhile is_name_char cs
      in if c = CHR ''@'' \<and> name \<noteq> [] then Column name # placeholders cs
         else if c = CHR ''$'' \<and> name \<noteq> [] then Special name # placeholders cs
         else placeholders cs)"

text \<open>Where the pointer is, in data coordinates, when a tooltip is shown.\<close>

record pointer =
  pointer_x :: pyval
  pointer_y :: pyval

text \<open>
  Modelled from the spec: the substitution of one placeholder for row \<open>i\<close>, done per row
  when the plot is viewed. A column placeholder takes the row's element of that column;
  \<^verbatim>\<open>$index\<close> is the row index, \<^verbatim>\<open>$x\<close> and \<^verbatim>\<open>$y\<close> are the pointer's coordinates.
  Anything else stays unresolved.
\<close>

fun resolve :: "pydict \<Rightarrow> nat \<Rightarrow> pointer \<Rightarrow> placeholder \<Rightarrow> pyval option" where
  "resolve d i pt (Column name) = column_at d name i"
| "resolve d i pt (Special name) =
     (if name = ''index'' then Some (PyInt (int i))
      else if name = ''x'' then Some (pointer_x pt)
      else if name = ''y'' then Some (pointer_y pt)
      else None)"

subsection \<open>Markers\<close>

record marker =
  center_x :: "pyval option"
  center_y :: "pyval option"
  marker_size :: int
  row_data :: "(string \<times> pyval option) list"

definition row_fields :: "pydict \<Rightarrow> nat \<Rightarrow> (string \<times> pyval option) list" where
  "row_fields d i = map (\<lambda>k. (k, column_at d k i)) (dict_keys d)"

text \<open>
  Modelled from the spec: the circle renderer draws every row of its data source as an
  independent marker, at the row's elements of the two bound columns, carrying the row.
  Without one of the bound columns there is nothing to draw.
\<close>

fun markers :: "renderer \<Rightarrow> pydict \<Rightarrow> marker list option" where
  "markers (Circle xf yf sz src) d =
     (case (dict_get d xf, dict_get d yf) of
        (Some xs, Some ys) \<Rightarrow>
          Some (map (\<lambda>i. \<lparr>center_x = column_at d xf i, center_y = column_at d yf i,
                           marker_size = sz, row_data = row_fields d i\<rparr>)
                    [0 ..< length xs])
      | _ \<Rightarrow> None)"

text \<open>
  Modelled from the spec: swapping the full row tuples at positions \<open>i\<close> and \<open>j\<close>, that
  is \<^verbatim>\<open>col[i], col[j] = col[j], col[i]\<close> in every column; an index out of range of
  some column is an IndexError.
\<close>

definition swap_rows :: "nat \<Rightarrow> nat \<Rightarrow> pydict \<Rightarrow> pydict option" where
  "swap_rows i j d =
     (if list_all (\<lambda>(k, col). i < length col \<and> j < length col) d
      then Some (map (\<lambda>(k, col). (k, col[i := col ! j, j := col ! i])) d)
      else None)"

subsection \<open>The artifact request\<close>

text \<open>
  The content of an artifact with the references followed: the file, the figure's
  configuration, the templates of its tools, and for each renderer the columns it is
  bound to and the record set behind them.
\<close>

record request =
  req_file :: "string option"
  req_width :: int
  req_height :: int
  req_title :: string
  req_tools :: "string option list"
  req_renderers :: "(string \<times> string \<times> int \<times> pydict option) list"

definition tool_template :: "(addr \<rightharpoonup> obj) \<Rightarrow> addr \<Rightarrow> string option" where
  "tool_template doc a = (case doc a of Some (HoverObj t) \<Rightarrow> Some t | _ \<Rightarrow> None)"

definition source_data :: "(addr \<rightharpoonup> obj) \<Rightarrow> addr \<Rightarrow> pydict option" where
  "source_data doc a = (case doc a of Some (DataSourceObj d) \<Rightarrow> Some d | _ \<Rightarrow> None)"

definition request_of :: "artifact \<Rightarrow> request option" where
  "request_of art =
     (case document art (root art) of
        Some (FigureObj f) \<Rightarrow>
          Some \<lparr>req_file = file_name art,
                req_width = plot_width f,
                req_height = plot_height f,
                req_title = title f,
                req_tools = map (tool_template (document art)) (tools f),
                req_renderers =
                  map (\<lambda>r. (x_field r, y_field r, glyph_size r,
                             source_data (document art) (data_source r)))
                      (renderers f)\<rparr>
      | _ \<Rightarrow> None)"

text \<open>The artifacts that a run from session \<open>s0\<close> to session \<open>s\<close> has added.\<close>

definition new_artifacts :: "session \<Rightarrow> session \<Rightarrow> artifact list" where
  "new_artifacts s0 s = drop (length (emitted s0)) (emitted s)"

text \<open>The exchange of two indices, as a function on indices.\<close>

definition exchange :: "nat \<Rightarrow> nat \<Rightarrow> nat \<Rightarrow> nat" where
  "exchange i j n = (if n = i then j else if n = j then i else n)"

section \<open>Runs of the script\<close>

lemmas run_defs = script_def construct_source_def after_source_def bindM_def invoke_def
  alloc_def import_from_def output_file_def ColumnDataSource_def HoverTool_def figure_def
  circle_def show_obj_def returnM_def Let_def

lemma final_state:
  "script no_failure init =
     (Inr (),
      \<lparr>store = [0 \<mapsto> DataSourceObj data, 1 \<mapsto> HoverObj tooltips,
                2 \<mapsto> FigureObj \<lparr>plot_width = 400, plot_height = 400, tools = [1],
                       title = ''Mouse over the dots'',
                       renderers = [Circle ''x'' ''y'' 20 0]\<rparr>],
       next_addr = 3,
       output_path = Some ''toolbar.html'',
       emitted = [\<lparr>file_name = Some ''toolbar.html'', root = 2,
                   document = [0 \<mapsto> DataSourceObj data, 1 \<mapsto> HoverObj tooltips,
                     2 \<mapsto> FigureObj \<lparr>plot_width = 400, plot_height = 400, tools = [1],
                            title = ''Mouse over the dots'',
                            renderers = [Circle ''x'' ''y'' 20 0]\<rparr>]\<rparr>],
       trace = [Import ''bokeh.plotting''
                  [''figure'', ''output_file'', ''show'', ''ColumnDataSource''],
                Import ''bokeh.models'' [''HoverTool''],
                Call_output_file ''toolbar.html'',
                Call_ColumnDataSource data,
                Call_HoverTool tooltips,
                Call_figure 400 400 [1] ''Mouse over the dots'',
                Call_circle 2 ''x'' ''y'' 20 0,
                Call_show 2]\<rparr>)"
  by (simp add: run_defs init_def no_failure_def numeral_2_eq_2 numeral_3_eq_3)

lemma script_calls_eq:
  "script_calls =
     [Import ''bokeh.plotting'' [''figure'', ''output_file'', ''show'', ''ColumnDataSource''],
      Import ''bokeh.models'' [''HoverTool''],
      Call_output_file ''toolbar.html'',
      Call_ColumnDataSource data,
      Call_HoverTool tooltips,
      Call_figure 400 400 [1] ''Mouse over the dots'',
      Call_circle 2 ''x'' ''y'' 20 0,
      Call_show 2]"
  by (simp add: script_calls_def final_state)

lemma run_success:
  assumes "script L init = (Inr u, s)"
  shows "s = snd (script no_failure init)"
  using assms
  by (simp add: run_defs init_def no_failure_def split: option.splits)

lemma run_trace:
  assumes "script L init = (r, s)"
  shows "trace s = take (length (trace s)) script_calls"
  using assms
  by (auto simp add: script_calls_eq run_defs init_def numeral_2_eq_2 split: option.splits)

lemma run_record_sets:
  assumes "script L init = (r, s)" and "d \<in> set (record_sets s)"
  shows "d = data"
  using assms
  by (auto simp add: run_defs init_def record_sets_def less_Suc_eq
           split: option.splits if_splits)

lemma final_record_sets: "data \<in> set (record_sets (snd (script no_failure init)))"
  by (simp add: final_state record_sets_def numeral_3_eq_3)

lemma final_run: "script no_failure init = (Inr (), snd (script no_failure init))"
  by (simp add: final_state)

lemma run_request:
  assumes "script L s0 = (Inr u, s)"
  shows "map request_of (new_artifacts s0 s) =
     [Some \<lparr>req_file = Some ''toolbar.html'', req_width = 400, req_height = 400,
            req_title = ''Mouse over the dots'', req_tools = [Some tooltips],
            req_renderers = [(''x'', ''y'', 20, Some data)]\<rparr>]"
  using assms
  by (auto simp add: run_defs new_artifacts_def request_of_def tool_template_def
        source_data_def split: option.splits)

lemma run_same_start:
  assumes "script L1 s0 = (Inr u1, s1)" and "script L2 s0 = (Inr u2, s2)"
  shows "s1 = s2"
  using assms
  by (auto simp add: run_defs split: option.splits)

lemma placeholders_tooltips:
  "placeholders tooltips =
     [Column ''imgs'', Column ''imgs'', Column ''desc'',
      Special ''index'', Special ''x'', Special ''y'']"
  by (simp add: tooltips_def is_name_char_def Let_def)

lemma tooltips_no_url: "\<not> contains ''://'' tooltips"
  by (simp add: tooltips_def)

lemma url_strings:
  "filter (contains ''://'') (concat (map call_strings script_calls)) =
     [''http://bokeh.pydata.org/static/snake.jpg'',
      ''http://bokeh.pydata.org/static/snake2.png'',
      ''http://bokeh.pydata.org/static/snake3D.png'',
      ''http://bokeh.pydata.org/static/snake4_TheRevenge.png'',
      ''http://bokeh.pydata.org/static/snakebite.jpg'']"
  by (simp add: script_calls_eq data_def column_strings_def tooltips_no_url)

lemma mset_exchange:
  assumes "i < N" and "j < N"
  shows "mset (map (exchange i j) [0 ..< N]) = mset [0 ..< N]"
proof -
  have "map (exchange i j) [0 ..< N] = [0 ..< N][j := [0 ..< N] ! i, i := [0 ..< N] ! j]"
    using assms by (intro nth_equalityI) (auto simp add: exchange_def nth_list_update)
  moreover have "mset ([0 ..< N][j := [0 ..< N] ! i, i := [0 ..< N] ! j]) = mset [0 ..< N]"
    using assms by (intro mset_swap) simp_all
  ultimately show ?thesis
    by (simp only:)
qed

lemma swap_rows_keys:
  assumes "swap_rows i j d = Some d'"
  shows "dict_keys d' = dict_keys d"
  using assms
  by (auto simp add: swap_rows_def dict_keys_def split: if_splits)

lemma swap_rows_get:
  assumes "swap_rows i j d = Some d'"
  shows "dict_get d' k = map_option (\<lambda>col. col[i := col ! j, j := col ! i]) (dict_get d k)"
proof -
  have "d' = map (\<lambda>(k, col). (k, col[i := col ! j, j := col ! i])) d"
    using assms by (simp add: swap_rows_def split: if_splits)
  then show ?thesis
    by (simp add: dict_get_def map_of_map)
qed

lemma swap_rows_range:
  assumes "swap_rows i j d = Some d'" and "dict_get d k = Some col"
  shows "i < length col \<and> j < length col"
proof -
  have "(k, col) \<in> set d"
    using assms(2) by (simp add: dict_get_def map_of_SomeD)
  moreover have "list_all (\<lambda>(k, col). i < length col \<and> j < length col) d"
    using assms(1) by (simp add: swap_rows_def split: if_splits)
  ultimately show ?thesis
    by (auto simp add: list_all_iff)
qed

lemma swap_rows_column_at:
  assumes "swap_rows i j d = Some d'"
  shows "column_at d' k n = column_at d k (exchange i j n)"
proof (cases "dict_get d k")
  case None
  then show ?thesis
    using swap_rows_get [OF assms, of k] by (simp add: column_at_def)
next
  case (Some col)
  then have "i < length col \<and> j < length col"
    using assms swap_rows_range by blast
  then show ?thesis
    using Some swap_rows_get [OF assms, of k]
    by (auto simp add: column_at_def exchange_def nth_list_update)
qed

section \<open>The record set\<close>

text \<open>
  C1. In every run of the script, whatever the library does, a record set that has been
  constructed has exactly the four fields x, y, desc and imgs, and each of the four
  field sequences has length 5.
\<close>

theorem record_set_field_lengths:
  assumes "script L init = (r, s)" and "d \<in> set (record_sets s)"
  shows "dict_keys d = [''x'', ''y'', ''desc'', ''imgs'']
         \<and> map (column_length d) (dict_keys d) = [Some 5, Some 5, Some 5, Some 5]"
proof -
  have "d = data"
    using assms by (rule run_record_sets)
  then show ?thesis
    by (simp add: data_def dict_keys_def column_length_def dict_get_def)
qed

theorem record_set_field_lengths_witness:
  "data \<in> set (record_sets (snd (script no_failure init)))
   \<and> dict_keys data = [''x'', ''y'', ''desc'', ''imgs'']
   \<and> map (column_length data) (dict_keys data) = [Some 5, Some 5, Some 5, Some 5]"
  using record_set_field_lengths [OF final_run final_record_sets] final_record_sets
  by blast

text \<open>
  C2. In every run of the script, the rows 0 to 4 of a constructed record set are, in
  this order, the tuples (x[i], y[i], desc[i], imgs[i]) of the literal sample data: no
  field is reordered relative to another.
\<close>

theorem rows_aligned:
  assumes "script L init = (r, s)" and "d \<in> set (record_sets s)"
  shows "map (row d) [0 ..< 5] =
    [[Some (PyInt 1), Some (PyInt 2), Some (PyStr ''A''),
      Some (PyStr ''http://bokeh.pydata.org/static/snake.jpg'')],
     [Some (PyInt 2), Some (PyInt 5), Some (PyStr ''b''),
      Some (PyStr ''http://bokeh.pydata.org/static/snake2.png'')],
     [Some (PyInt 3), Some (PyInt 8), Some (PyStr ''C''),
      Some (PyStr ''http://bokeh.pydata.org/static/snake3D.png'')],
     [Some (PyInt 4), Some (PyInt 2), Some (PyStr ''d''),
      Some (PyStr ''http://bokeh.pydata.org/static/snake4_TheRevenge.png'')],
     [Some (PyInt 5), Some (PyInt 7), Some (PyStr ''E''),
      Some (PyStr ''http://bokeh.pydata.org/static/snakebite.jpg'')]]"
proof -
  have "d = data"
    using assms by (rule run_record_sets)
  moreover have "[0 ..< 5] = [0, 1, 2, 3, 4::nat]"
    by (simp add: upt_rec)
  ultimately show ?thesis
    by (simp add: data_def row_def column_at_def dict_get_def)
qed

theorem rows_aligned_witness:
  "data \<in> set (record_sets (snd (script no_failure init)))
   \<and> map (row data) [0 ..< 5] =
    [[Some (PyInt 1), Some (PyInt 2), Some (PyStr ''A''),
      Some (PyStr ''http://bokeh.pydata.org/static/snake.jpg'')],
     [Some (PyInt 2), Some (PyInt 5), Some (PyStr ''b''),
      Some (PyStr ''http://bokeh.pydata.org/static/snake2.png'')],
     [Some (PyInt 3), Some (PyInt 8), Some (PyStr ''C''),
      Some (PyStr ''http://bokeh.pydata.org/static/snake3D.png'')],
     [Some (PyInt 4), Some (PyInt 2), Some (PyStr ''d''),
      Some (PyStr ''http://bokeh.pydata.org/static/snake4_TheRevenge.png'')],
     [Some (PyInt 5), Some (PyInt 7), Some (PyStr ''E''),
      Some (PyStr ''http://bokeh.pydata.org/static/snakebite.jpg'')]]"
  using rows_aligned [OF final_run final_record_sets] final_record_sets
  by blast

section \<open>Determinism\<close>

text \<open>
  C3. The script is deterministic and input-free. Take any two runs that complete,
  under any two behaviours of the library and from any two sessions (whatever an
  earlier run has left behind): both add exactly one artifact, and the two artifact
  requests are the same in file, figure configuration, tool templates, field bindings
  and record set. From the same session the two final sessions are equal. Any two runs
  from the initial session, completed or not, make the same calls with the same
  arguments for as long as both last. The script takes no input: the model has no
  parameter for a command line, an environment variable or a configuration file.
\<close>

theorem script_deterministic:
  assumes "script L1 a = (r1, s1)" and "script L2 b = (r2, s2)"
  shows "(r1 = Inr () \<and> r2 = Inr () \<longrightarrow>
            map request_of (new_artifacts a s1) = map request_of (new_artifacts b s2)
            \<and> length (new_artifacts a s1) = 1
            \<and> (a = b \<longrightarrow> s1 = s2))
         \<and> (a = init \<and> b = init \<longrightarrow>
            take (min (length (trace s1)) (length (trace s2))) (trace s1) =
            take (min (length (trace s1)) (length (trace s2))) (trace s2))"
proof (intro conjI impI)
  assume ok: "r1 = Inr () \<and> r2 = Inr ()"
  have q1: "map request_of (new_artifacts a s1) =
     [Some \<lparr>req_file = Some ''toolbar.html'', req_width = 400, req_height = 400,
            req_title = ''Mouse over the dots'', req_tools = [Some tooltips],
            req_renderers = [(''x'', ''y'', 20, Some data)]\<rparr>]"
    using assms(1) ok run_request by blast
  moreover have "map request_of (new_artifacts b s2) =
     [Some \<lparr>req_file = Some ''toolbar.html'', req_width = 400, req_height = 400,
            req_title = ''Mouse over the dots'', req_tools = [Some tooltips],
            req_renderers = [(''x'', ''y'', 20, Some data)]\<rparr>]"
    using assms(2) ok run_request by blast
  ultimately show "map request_of (new_artifacts a s1) = map request_of (new_artifacts b s2)"
    by simp
  have "length (map request_of (new_artifacts a s1)) = 1"
    by (simp only: q1) simp
  then show "length (new_artifacts a s1) = 1"
    by simp
  show "s1 = s2" if "a = b"
    using that assms ok run_same_start by blast
next
  assume start: "a = init \<and> b = init"
  let ?n = "min (length (trace s1)) (length (trace s2))"
  have t1: "trace s1 = take (length (trace s1)) script_calls"
    using assms(1) start run_trace by blast
  have t2: "trace s2 = take (length (trace s2)) script_calls"
    using assms(2) start run_trace by blast
  have "take ?n (trace s1) = take ?n script_calls"
    by (subst t1) (simp add: min.absorb1)
  moreover have "take ?n (trace s2) = take ?n script_calls"
    by (subst t2) (simp add: min.absorb1)
  ultimately show "take ?n (trace s1) = take ?n (trace s2)"
    by simp
qed

text \<open>
  Two runs that differ in the library and in where they start: the second starts from the
  session that the first has left.
\<close>

theorem script_deterministic_witness:
  "fst (script no_failure init) = Inr ()
   \<and> fst (script (failing_at (Import ''os'' []) (PyExn ''ImportError'' ''os''))
            (snd (script no_failure init))) = Inr ()
   \<and> map request_of (new_artifacts init (snd (script no_failure init))) =
     map request_of
       (new_artifacts (snd (script no_failure init))
          (snd (script (failing_at (Import ''os'' []) (PyExn ''ImportError'' ''os''))
                  (snd (script no_failure init)))))
   \<and> length (new_artifacts init (snd (script no_failure init))) = 1"
proof -
  let ?L = "failing_at (Import ''os'' []) (PyExn ''ImportError'' ''os'')"
  let ?s = "snd (script no_failure init)"
  have r1: "fst (script no_failure init) = Inr ()"
    by (simp add: final_state)
  have r2: "fst (script ?L ?s) = Inr ()"
    by (simp add: final_state) (simp add: run_defs failing_at_def)
  have "script ?L ?s = (Inr (), snd (script ?L ?s))"
    using r2 by (metis prod.collapse)
  with final_run r1 r2 show ?thesis
    using script_deterministic [of no_failure init "Inr ()" ?s ?L ?s "Inr ()" "snd (script ?L ?s)"]
    by blast
qed

section \<open>The output artifact\<close>

text \<open>
  C5. The script requests exactly one output artifact, the HTML file "toolbar.html" in
  the working directory: a run that completes has handed over exactly one artifact, for
  that file; a run that fails has handed over none; and in no run is any other output
  file named. The name has no directory part.
\<close>

theorem single_output_artifact:
  assumes "script L init = (r, s)"
  shows "set (named_files (trace s)) \<subseteq> {''toolbar.html''}
         \<and> map file_name (emitted s) = (if r = Inr () then [Some ''toolbar.html''] else [])
         \<and> CHR ''/'' \<notin> set ''toolbar.html''"
  using assms
  by (auto simp add: run_defs init_def named_files_def split: option.splits)

theorem single_output_artifact_witness:
  "named_files (trace (snd (script no_failure init))) = [''toolbar.html'']
   \<and> map file_name (emitted (snd (script no_failure init))) = [Some ''toolbar.html'']"
  using single_output_artifact [OF final_run]
  by (simp add: final_state named_files_def)

section \<open>The record set is not modified\<close>

text \<open>
  C6. No statement after the construction of the record set modifies it. Stated for the
  four statements that follow (tooltip construction, figure construction, renderer
  binding, output emission), from any session and under any behaviour of the library:
  every object that exists before them, the data source among them, is the same after
  them, and is the same in every artifact they hand over.
\<close>

theorem source_not_modified:
  assumes "a < next_addr s0" and "after_source L src s0 = (r, s)"
  shows "store s a = store s0 a
         \<and> list_all (\<lambda>art. document art a = store s0 a) (new_artifacts s0 s)"
  using assms
  by (auto simp add: run_defs new_artifacts_def split: option.splits)

text \<open>In the script: the source is object 0 of the session that its construction leaves.\<close>

theorem source_not_modified_witness:
  "fst (construct_source no_failure init) = Inr 0
   \<and> 0 < next_addr (snd (construct_source no_failure init))
   \<and> store (snd (construct_source no_failure init)) 0 = Some (DataSourceObj data)
   \<and> store (snd (after_source no_failure 0 (snd (construct_source no_failure init)))) 0
       = Some (DataSourceObj data)
   \<and> map (\<lambda>art. document art 0)
         (new_artifacts (snd (construct_source no_failure init))
            (snd (after_source no_failure 0 (snd (construct_source no_failure init)))))
       = [Some (DataSourceObj data)]"
proof -
  let ?s0 = "snd (construct_source no_failure init)"
  have c: "construct_source no_failure init =
     (Inr 0, \<lparr>store = [0 \<mapsto> DataSourceObj data], next_addr = 1,
              output_path = Some ''toolbar.html'', emitted = [],
              trace = [Import ''bokeh.plotting''
                         [''figure'', ''output_file'', ''show'', ''ColumnDataSource''],
                       Import ''bokeh.models'' [''HoverTool''],
                       Call_output_file ''toolbar.html'',
                       Call_ColumnDataSource data]\<rparr>)"
    by (simp add: run_defs init_def no_failure_def)
  have lt: "0 < next_addr ?s0"
    by (simp add: c)
  have run: "after_source no_failure 0 ?s0 =
               (fst (after_source no_failure 0 ?s0), snd (after_source no_failure 0 ?s0))"
    by simp
  have new: "length (new_artifacts ?s0 (snd (after_source no_failure 0 ?s0))) = 1"
    by (simp add: c) (simp add: run_defs no_failure_def new_artifacts_def)
  have "store (snd (after_source no_failure 0 ?s0)) 0 = store ?s0 0"
    and all: "list_all (\<lambda>art. document art 0 = store ?s0 0)
           (new_artifacts ?s0 (snd (after_source no_failure 0 ?s0)))"
    using source_not_modified [OF lt run] by blast+
  moreover have "store ?s0 0 = Some (DataSourceObj data)"
    by (simp add: c)
  moreover have "map (\<lambda>art. document art 0)
         (new_artifacts ?s0 (snd (after_source no_failure 0 ?s0))) = [store ?s0 0]"
    using new all
    by (cases "new_artifacts ?s0 (snd (after_source no_failure 0 ?s0))") simp_all
  ultimately show ?thesis
    using lt by (simp add: c)
qed

section \<open>The figure\<close>

text \<open>
  C7. When the script completes, the one artifact handed over has the figure as its
  root: width 400, height 400, title "Mouse over the dots", a tool list of exactly one
  tool, the hover tool that carries the tooltip template, and exactly one renderer, a
  circle of size 20 bound to the columns 'x' and 'y' of the record set, which has both.
\<close>

theorem figure_configuration:
  assumes "script L init = (Inr u, s)"
  shows "\<exists>art. emitted s = [art] \<and> root art = 2 \<and> document art = store s
           \<and> store s 2 = Some (FigureObj
                 \<lparr>plot_width = 400, plot_height = 400, tools = [1],
                  title = ''Mouse over the dots'',
                  renderers = [Circle ''x'' ''y'' 20 0]\<rparr>)
           \<and> store s 1 = Some (HoverObj tooltips)
           \<and> store s 0 = Some (DataSourceObj data)
           \<and> ''x'' \<in> set (dict_keys data) \<and> ''y'' \<in> set (dict_keys data)"
proof -
  have "s = snd (script no_failure init)"
    using assms by (rule run_success)
  then show ?thesis
    by (simp add: final_state dict_keys_def data_def)
qed

theorem figure_configuration_witness:
  "\<exists>art. emitted (snd (script no_failure init)) = [art] \<and> root art = 2
           \<and> document art = store (snd (script no_failure init))
           \<and> store (snd (script no_failure init)) 2 = Some (FigureObj
                 \<lparr>plot_width = 400, plot_height = 400, tools = [1],
                  title = ''Mouse over the dots'',
                  renderers = [Circle ''x'' ''y'' 20 0]\<rparr>)
           \<and> store (snd (script no_failure init)) 1 = Some (HoverObj tooltips)
           \<and> store (snd (script no_failure init)) 0 = Some (DataSourceObj data)
           \<and> ''x'' \<in> set (dict_keys data) \<and> ''y'' \<in> set (dict_keys data)"
  using figure_configuration [OF final_run] .

section \<open>Failures\<close>

text \<open>
  C8. Whichever call of the script is the first that the library fails, and whatever it
  raises there, the run ends with exactly that exception: the calls made are the calls
  up to and including the failing one, none of the later statements is executed, and
  nothing is handed over.
\<close>

theorem failure_propagates:
  assumes "n < length script_calls"
    and "L (script_calls ! n) = Some e"
    and "list_all (\<lambda>c. L c = None) (take n script_calls)"
  shows "fst (script L init) = Inl e
         \<and> trace (snd (script L init)) = take (Suc n) script_calls
         \<and> emitted (snd (script L init)) = []"
proof -
  have "n < 8"
    using assms(1) by (simp add: script_calls_eq)
  then consider "n = 0" | "n = 1" | "n = 2" | "n = 3" | "n = 4" | "n = 5" | "n = 6" | "n = 7"
    by linarith
  then show ?thesis
  proof cases
    case 1
    with assms(2,3) show ?thesis
      by (simp add: script_calls_eq run_defs init_def)
  next
    case 2
    with assms(2,3) show ?thesis
      by (simp add: script_calls_eq run_defs init_def)
  next
    case 3
    with assms(2,3) show ?thesis
      by (simp add: script_calls_eq run_defs init_def)
  next
    case 4
    with assms(2,3) show ?thesis
      by (simp add: script_calls_eq run_defs init_def)
  next
    case 5
    with assms(2,3) show ?thesis
      by (simp add: script_calls_eq run_defs init_def)
  next
    case 6
    with assms(2,3) show ?thesis
      by (simp add: script_calls_eq run_defs init_def)
  next
    case 7
    with assms(2,3) show ?thesis
      by (simp add: script_calls_eq run_defs init_def numeral_2_eq_2)
  next
    case 8
    with assms(2,3) show ?thesis
      by (simp add: script_calls_eq run_defs init_def numeral_2_eq_2)
  qed
qed

text \<open>A malformed template: the constructor of the hover tool, the fifth call, raises.\<close>

theorem failure_propagates_witness:
  "script_calls ! 4 = Call_HoverTool tooltips
   \<and> fst (script (failing_at (Call_HoverTool tooltips) (PyExn ''ValueError'' ''template''))
            init) = Inl (PyExn ''ValueError'' ''template'')
   \<and> trace (snd (script (failing_at (Call_HoverTool tooltips)
                            (PyExn ''ValueError'' ''template'')) init)) =
       [Import ''bokeh.plotting'' [''figure'', ''output_file'', ''show'', ''ColumnDataSource''],
        Import ''bokeh.models'' [''HoverTool''],
        Call_output_file ''toolbar.html'',
        Call_ColumnDataSource data,
        Call_HoverTool tooltips]
   \<and> emitted (snd (script (failing_at (Call_HoverTool tooltips)
                              (PyExn ''ValueError'' ''template'')) init)) = []"
proof -
  let ?L = "failing_at (Call_HoverTool tooltips) (PyExn ''ValueError'' ''template'')"
  have n: "4 < length script_calls"
    by (simp add: script_calls_eq)
  have at: "script_calls ! 4 = Call_HoverTool tooltips"
    by (simp add: script_calls_eq)
  have raises: "?L (script_calls ! 4) = Some (PyExn ''ValueError'' ''template'')"
    by (simp add: at failing_at_def)
  have before: "list_all (\<lambda>c. ?L c = None) (take 4 script_calls)"
    by (simp add: script_calls_eq failing_at_def)
  have "take (Suc 4) script_calls =
       [Import ''bokeh.plotting'' [''figure'', ''output_file'', ''show'', ''ColumnDataSource''],
        Import ''bokeh.models'' [''HoverTool''],
        Call_output_file ''toolbar.html'',
        Call_ColumnDataSource data,
        Call_HoverTool tooltips]"
    by (simp add: script_calls_eq)
  with failure_propagates [OF n raises before] at show ?thesis
    by simp
qed

section \<open>Network\<close>

text \<open>
  C9. The script performs no network access of its own. In every run the calls made are
  calls of the script's one sequence: two imports, the naming of the output file, three
  constructions, the binding of the renderer and the emission. At most one artifact is
  handed over, for "toolbar.html". Of all the strings that the script hands to the
  library, those that hold a URL are exactly the five entries of the imgs column; the
  tooltip markup holds none and names the column by its placeholder.
\<close>

theorem no_network_access:
  assumes "script L init = (r, s)"
  shows "trace s = take (length (trace s)) script_calls
         \<and> script_calls =
             [Import ''bokeh.plotting''
                [''figure'', ''output_file'', ''show'', ''ColumnDataSource''],
              Import ''bokeh.models'' [''HoverTool''],
              Call_output_file ''toolbar.html'',
              Call_ColumnDataSource data,
              Call_HoverTool tooltips,
              Call_figure 400 400 [1] ''Mouse over the dots'',
              Call_circle 2 ''x'' ''y'' 20 0,
              Call_show 2]
         \<and> length (emitted s) \<le> 1
         \<and> list_all (\<lambda>art. file_name art = Some ''toolbar.html'') (emitted s)
         \<and> dict_get data ''imgs'' =
             Some (map PyStr
               (filter (contains ''://'') (concat (map call_strings script_calls))))
         \<and> \<not> contains ''://'' tooltips
         \<and> Column ''imgs'' \<in> set (placeholders tooltips)"
proof (intro conjI)
  show "trace s = take (length (trace s)) script_calls"
    using assms by (rule run_trace)
  show "length (emitted s) \<le> 1"
    using assms by (auto simp add: run_defs init_def split: option.splits)
  show "list_all (\<lambda>art. file_name art = Some ''toolbar.html'') (emitted s)"
    using assms by (auto simp add: run_defs init_def split: option.splits)
  show "dict_get data ''imgs'' =
          Some (map PyStr (filter (contains ''://'') (concat (map call_strings script_calls))))"
    by (simp only: url_strings) (simp add: data_def dict_get_def)
  show "Column ''imgs'' \<in> set (placeholders tooltips)"
    by (simp add: placeholders_tooltips)
qed (rule script_calls_eq, rule tooltips_no_url)

theorem no_network_access_witness:
  "length (trace (snd (script no_failure init))) = 8
   \<and> trace (snd (script no_failure init)) = script_calls
   \<and> length (emitted (snd (script no_failure init))) = 1"
proof -
  have "length (trace (snd (script no_failure init))) = 8"
    and "length (emitted (snd (script no_failure init))) = 1"
    by (simp_all add: final_state)
  moreover have "length script_calls = 8"
    by (simp add: script_calls_eq)
  ultimately show ?thesis
    using no_network_access [OF final_run] by simp
qed

section \<open>The tooltip template\<close>

text \<open>
  C10. The placeholders of the tooltip template are @imgs (twice), @desc, $index, $x and
  $y. The two column placeholders name fields of the record set and the other three are
  variables that the library provides, so that for each of the rows 0 to 4, and
  wherever the pointer is, every placeholder resolves to a value: @imgs to the row's
  URL, @desc to the row's label, $index to the row index, $x and $y to the pointer's
  coordinates.
\<close>

theorem placeholders_resolve:
  "placeholders tooltips =
     [Column ''imgs'', Column ''imgs'', Column ''desc'',
      Special ''index'', Special ''x'', Special ''y'']
   \<and> map (\<lambda>i. map (resolve data i pt) (placeholders tooltips)) [0 ..< 5] =
     [[Some (PyStr ''http://bokeh.pydata.org/static/snake.jpg''),
       Some (PyStr ''http://bokeh.pydata.org/static/snake.jpg''),
       Some (PyStr ''A''), Some (PyInt 0), Some (pointer_x pt), Some (pointer_y pt)],
      [Some (PyStr ''http://bokeh.pydata.org/static/snake2.png''),
       Some (PyStr ''http://bokeh.pydata.org/static/snake2.png''),
       Some (PyStr ''b''), Some (PyInt 1), Some (pointer_x pt), Some (pointer_y pt)],
      [Some (PyStr ''http://bokeh.pydata.org/static/snake3D.png''),
       Some (PyStr ''http://bokeh.pydata.org/static/snake3D.png''),
       Some (PyStr ''C''), Some (PyInt 2), Some (pointer_x pt), Some (pointer_y pt)],
      [Some (PyStr ''http://bokeh.pydata.org/static/snake4_TheRevenge.png''),
       Some (PyStr ''http://bokeh.pydata.org/static/snake4_TheRevenge.png''),
       Some (PyStr ''d''), Some (PyInt 3), Some (pointer_x pt), Some (pointer_y pt)],
      [Some (PyStr ''http://bokeh.pydata.org/static/snakebite.jpg''),
       Some (PyStr ''http://bokeh.pydata.org/static/snakebite.jpg''),
       Some (PyStr ''E''), Some (PyInt 4), Some (pointer_x pt), Some (pointer_y pt)]]"
proof -
  have "[0 ..< 5] = [0, 1, 2, 3, 4::nat]"
    by (simp add: upt_rec)
  then show ?thesis
    by (simp add: placeholders_tooltips data_def column_at_def dict_get_def)
qed

section \<open>Swapping rows\<close>

text \<open>
  C4. Swapping the full row tuples at any two positions \<open>i\<close> and \<open>j\<close> of a record set
  leaves the multiset of markers that a circle renderer produces from it unchanged:
  every row is drawn as a marker of its own, and the swap only permutes the rows.
\<close>

theorem swap_rows_same_markers:
  assumes "swap_rows i j d = Some d'"
  shows "map_option mset (markers rd d') = map_option mset (markers rd d)"
proof (cases rd)
  case (Circle xf yf sz src)
  let ?mk = "\<lambda>d n. \<lparr>center_x = column_at d xf n, center_y = column_at d yf n,
                      marker_size = sz, row_data = row_fields d n\<rparr>"
  have mk: "?mk d' n = ?mk d (exchange i j n)" for n
    using swap_rows_column_at [OF assms] swap_rows_keys [OF assms]
    by (simp add: row_fields_def)
  show ?thesis
  proof (cases "dict_get d xf")
    case None
    then show ?thesis
      using Circle swap_rows_get [OF assms, of xf] by simp
  next
    case xs: (Some xs)
    show ?thesis
    proof (cases "dict_get d yf")
      case None
      then show ?thesis
        using Circle xs swap_rows_get [OF assms, of xf] swap_rows_get [OF assms, of yf]
        by simp
    next
      case ys: (Some ys)
      have range: "i < length xs \<and> j < length xs"
        using assms xs swap_rows_range by blast
      have m': "markers rd d' = Some (map (?mk d') [0 ..< length xs])"
        using Circle xs ys swap_rows_get [OF assms, of xf] swap_rows_get [OF assms, of yf]
        by simp
      have m: "markers rd d = Some (map (?mk d) [0 ..< length xs])"
        using Circle xs ys by simp
      have "map (?mk d') [0 ..< length xs] = map (?mk d) (map (exchange i j) [0 ..< length xs])"
        using mk by simp
      then have "mset (map (?mk d') [0 ..< length xs]) =
                 image_mset (?mk d) (mset (map (exchange i j) [0 ..< length xs]))"
        by (simp only: mset_map)
      also have "\<dots> = image_mset (?mk d) (mset [0 ..< length xs])"
        using range by (simp only: mset_exchange)
      also have "\<dots> = mset (map (?mk d) [0 ..< length xs])"
        by (simp only: mset_map)
      finally show ?thesis
        by (simp only: m m' option.map)
    qed
  qed
qed

theorem swap_rows_same_markers_witness:
  "swap_rows 0 3 data \<noteq> None
   \<and> map_option mset (markers (Circle ''x'' ''y'' 20 0) (the (swap_rows 0 3 data))) =
     map_option mset (markers (Circle ''x'' ''y'' 20 0) data)
   \<and> the (swap_rows 0 3 data) \<noteq> data
   \<and> map_option length (markers (Circle ''x'' ''y'' 20 0) data) = Some 5"
proof -
  have sw: "swap_rows 0 3 data = Some (the (swap_rows 0 3 data))"
    by (simp add: swap_rows_def data_def)
  have "the (swap_rows 0 3 data) \<noteq> data"
    by (simp add: swap_rows_def data_def)
  moreover have "map_option length (markers (Circle ''x'' ''y'' 20 0) data) = Some 5"
    by (simp add: data_def dict_get_def)
  moreover have "swap_rows 0 3 data \<noteq> None"
    using sw by (metis option.distinct(1))
  ultimately show ?thesis
    using swap_rows_same_markers [OF sw, of "Circle ''x'' ''y'' 20 0"] by blast
qed

end
